theory Spec2Isabelle
  imports Main "HOL-Library.Word" "HOL-Library.Sublist"
begin

section \<open>JavaScript strings\<close>

text \<open>
  A JavaScript string is a sequence of UTF-16 code units: \<open>length\<close>, \<open>slice\<close> and
  \<open>trim\<close> all count and inspect code units. The string literals of the source are
  ASCII and are embedded with \<open>js\<close>.
\<close>

type_synonym code_unit = "16 word"
type_synonym jsstring = "code_unit list"
type_synonym byte = "8 word"

definition js :: "string \<Rightarrow> jsstring" where
  "js s = map of_char s"

text \<open>
  \<open>String.prototype.trim\<close> removes, at both ends, the code units that ECMAScript calls
  WhiteSpace or LineTerminator: TAB, LF, VT, FF, CR, SPACE, NBSP, U+1680, U+2000 to
  U+200A, U+2028, U+2029, U+202F, U+205F, U+3000 and U+FEFF.
\<close>

definition isWhiteSpace :: "code_unit \<Rightarrow> bool" where
  "isWhiteSpace c \<longleftrightarrow>
     c = 0x0009 \<or> c = 0x000A \<or> c = 0x000B \<or> c = 0x000C \<or> c = 0x000D \<or> c = 0x0020 \<or>
     c = 0x00A0 \<or> c = 0x1680 \<or> (0x2000 \<le> c \<and> c \<le> 0x200A) \<or> c = 0x2028 \<or>
     c = 0x2029 \<or> c = 0x202F \<or> c = 0x205F \<or> c = 0x3000 \<or> c = 0xFEFF"

definition trim :: "jsstring \<Rightarrow> jsstring" where
  "trim s = rev (dropWhile isWhiteSpace (rev (dropWhile isWhiteSpace s)))"

section \<open>JSON values as the handler sees them\<close>

text \<open>
  The value that \<open>request.json()\<close> or \<open>JSON.parse\<close> yields. The TypeScript interface
  \<open>RecapRequest\<close> is erased at run time, so the handler receives any JSON value. A
  number is kept as an integer: the handler only ever tests a number for being zero.
  Reading a property gives \<open>None\<close> for \<open>undefined\<close>.
\<close>

datatype json =
    JNull
  | JBool bool
  | JNum int
  | JStr jsstring
  | JArr "json list"
  | JObj "(jsstring \<times> json) list"

text \<open>
  \<open>v.k\<close> for a value \<open>v\<close> that is not \<open>null\<close> and a key \<open>k\<close> that no prototype
  defines (all keys read by the handler are of this kind): the own property of an
  object, \<open>undefined\<close> on every other value. The keys of a decoded object are
  distinct, so the first pair with the key is the only one.
\<close>

fun member :: "json \<Rightarrow> jsstring \<Rightarrow> json option" where
  "member (JObj kvs) k = map_of kvs k"
| "member _ k = None"

fun truthy :: "json option \<Rightarrow> bool" where
  "truthy None = False"
| "truthy (Some JNull) = False"
| "truthy (Some (JBool b)) = b"
| "truthy (Some (JNum n)) = (n \<noteq> 0)"
| "truthy (Some (JStr s)) = (s \<noteq> [])"
| "truthy (Some (JArr xs)) = True"
| "truthy (Some (JObj kvs)) = True"

text \<open>\<open>x || d\<close> and \<open>x ?? d\<close>.\<close>

definition or_default :: "json option \<Rightarrow> json \<Rightarrow> json" where
  "or_default x d = (case x of None \<Rightarrow> d | Some v \<Rightarrow> if truthy (Some v) then v else d)"

definition nullish_default :: "json option \<Rightarrow> json \<Rightarrow> json" where
  "nullish_default x d = (case x of None \<Rightarrow> d | Some JNull \<Rightarrow> d | Some v \<Rightarrow> v)"

section \<open>The route handler \<open>POST /api/recap\<close>\<close>

subsection \<open>Responses, remote calls and the environment of one request\<close>

text \<open>
  \<open>NextResponse.json(payload, {status})\<close>; the status is 200 when none is given. An
  error payload is \<open>{error}\<close> or \<open>{error, raw}\<close>; the success payload is
  \<open>{notes_markdown, audioBase64, mimeType}\<close> with \<open>None\<close> for \<open>null\<close>.
\<close>

datatype payload =
    ErrorBody jsstring "jsstring option"
  | RecapBody json "jsstring option" "jsstring option"

record response =
  status :: nat
  body :: payload

definition error_response :: "nat \<Rightarrow> jsstring \<Rightarrow> response" where
  "error_response st msg = \<lparr>status = st, body = ErrorBody msg None\<rparr>"

record message_param =
  param_role :: jsstring
  param_content :: jsstring

datatype content_part =
    TextPart jsstring
  | OtherPart jsstring

record message =
  role :: jsstring
  content :: "content_part list"

text \<open>
  What the handler reads from outside: the two environment variables, the request
  body, and the answers of the remote service. A remote call that throws is \<open>Inl m\<close>,
  with \<open>m\<close> the text that \<open>err?.message || String(err)\<close> gives for the thrown value.
  \<open>request_json\<close> is \<open>None\<close> when the body is not JSON; \<open>JSON_parse\<close> is \<open>None\<close> when
  \<open>JSON.parse\<close> throws; \<open>toBase64\<close> is \<open>buffer.toString("base64")\<close>.
\<close>

record world =
  OPENAI_API_KEY :: "jsstring option"
  OPENAI_ASSISTANT_ID :: "jsstring option"
  request_json :: "json option"
  threads_create :: "message_param list \<Rightarrow> jsstring + jsstring"
  runs_createAndPoll :: "jsstring \<Rightarrow> jsstring \<Rightarrow> jsstring + jsstring"
  messages_list :: "jsstring \<Rightarrow> jsstring + message list"
  JSON_parse :: "jsstring \<Rightarrow> json option"
  speech_create :: "json \<Rightarrow> jsstring + byte list"
  toBase64 :: "byte list \<Rightarrow> jsstring"

text \<open>The calls the handler makes, in order.\<close>

datatype step =
    RequestJson
  | ThreadsCreate "message_param list"
  | RunsCreateAndPoll jsstring jsstring
  | MessagesList jsstring
  | SpeechCreate json

subsection \<open>Lines 39 to 53: transcript, mode, language, instruction\<close>

text \<open>
  \<open>(body.transcript || "").trim()\<close>. Reading a property of \<open>null\<close> and calling
  \<open>trim\<close> on a value that is not a string throw a TypeError outside the \<open>try\<close>
  block; \<open>Inl\<close> carries its message, for \<open>null\<close> in V8's wording, for \<open>trim\<close>
  without the callee's source text that V8 puts in front.
\<close>

definition read_transcript :: "json \<Rightarrow> jsstring + jsstring" where
  "read_transcript b =
     (case b of
        JNull \<Rightarrow>
          Inl (js ''Cannot read properties of null (reading '' @ [39] @ js ''transcript''
               @ [39] @ js '')'')
      | _ \<Rightarrow>
        (case or_default (member b (js ''transcript'')) (JStr []) of
           JStr s \<Rightarrow> Inr (trim s)
         | _ \<Rightarrow> Inl (js ''trim is not a function'')))"

definition read_mode :: "json \<Rightarrow> json" where
  "read_mode b = or_default (member b (js ''mode'')) (JStr (js ''notes''))"

definition read_language :: "json \<Rightarrow> json" where
  "read_language b = or_default (member b (js ''language'')) (JStr (js ''en''))"

definition swedish_instruction :: jsstring where
  "swedish_instruction = js ''Please write the notes and voiceover script in Swedish.''"

definition english_instruction :: jsstring where
  "english_instruction = js ''Please write the notes and voiceover script in English.''"

definition languageInstruction :: "json \<Rightarrow> jsstring" where
  "languageInstruction language =
     (if language = JStr (js ''sv'') then swedish_instruction else english_instruction)"

text \<open>The template literal of line 60; 10 is the line feed.\<close>

definition seed_content :: "json \<Rightarrow> jsstring \<Rightarrow> jsstring" where
  "seed_content language transcript =
     languageInstruction language @ [10, 10] @ js ''Transcript:'' @ [10, 10] @ transcript"

definition seed_messages :: "json \<Rightarrow> jsstring \<Rightarrow> message_param list" where
  "seed_messages language transcript =
     [\<lparr>param_role = js ''user'', param_content = seed_content language transcript\<rparr>]"

subsection \<open>Lines 78 to 108: the assistant's answer\<close>

text \<open>
  \<open>Inl\<close> is the response of an early return, \<open>Inr\<close> the pair
  \<open>(notes_markdown, voiceover_script)\<close>. When the text decodes to \<open>null\<close>, line 107
  throws a TypeError inside the \<open>try\<close> block and the \<open>catch\<close> of line 132 answers.
\<close>

definition null_property_message :: jsstring where
  "null_property_message =
     js ''Cannot read properties of null (reading '' @ [39] @ js ''notes_markdown'' @ [39] @ js '')''"

definition parse_assistant :: "(jsstring \<Rightarrow> json option) \<Rightarrow> message list \<Rightarrow> response + json \<times> json" where
  "parse_assistant parse_fn data =
     (case find (\<lambda>m. role m = js ''assistant'') data of
        None \<Rightarrow> Inl (error_response 500 (js ''No assistant response found''))
      | Some assistantMsg \<Rightarrow>
        (case content assistantMsg of
           [] \<Rightarrow> Inl (error_response 500 (js ''No assistant response found''))
         | firstPart # _ \<Rightarrow>
           (case firstPart of
              OtherPart _ \<Rightarrow> Inl (error_response 500 (js ''Unexpected assistant content type''))
            | TextPart raw \<Rightarrow>
              (case parse_fn raw of
                 None \<Rightarrow>
                   Inl \<lparr>status = 500,
                        body = ErrorBody (js ''Failed to parse JSON from assistant'') (Some raw)\<rparr>
               | Some JNull \<Rightarrow> Inl (error_response 500 null_property_message)
               | Some parsed \<Rightarrow>
                   Inr (nullish_default (member parsed (js ''notes_markdown'')) (JStr []),
                        nullish_default (member parsed (js ''voiceover_script'')) (JStr []))))))"

subsection \<open>Lines 110 to 131: the response\<close>

definition compose :: "world \<Rightarrow> json \<Rightarrow> json \<Rightarrow> json \<Rightarrow> step list \<times> response" where
  "compose w mode notes_markdown voiceover_script =
     (if mode = JStr (js ''notes'')
      then ([], \<lparr>status = 200, body = RecapBody notes_markdown None None\<rparr>)
      else
        (case speech_create w voiceover_script of
           Inl e \<Rightarrow> ([SpeechCreate voiceover_script], error_response 500 e)
         | Inr buffer \<Rightarrow>
             ([SpeechCreate voiceover_script],
              \<lparr>status = 200,
               body = RecapBody notes_markdown (Some (toBase64 w buffer)) (Some (js ''audio/mpeg''))\<rparr>)))"

subsection \<open>Lines 55 to 138: the \<open>try\<close> block\<close>

definition recap :: "world \<Rightarrow> jsstring \<Rightarrow> jsstring \<Rightarrow> json \<Rightarrow> json \<Rightarrow> step list \<times> response" where
  "recap w assistant_id transcript mode language =
     (let seed = seed_messages language transcript in
      case threads_create w seed of
        Inl e \<Rightarrow> ([ThreadsCreate seed], error_response 500 e)
      | Inr thread_id \<Rightarrow>
        (case runs_createAndPoll w thread_id assistant_id of
           Inl e \<Rightarrow>
             ([ThreadsCreate seed, RunsCreateAndPoll thread_id assistant_id], error_response 500 e)
         | Inr run_status \<Rightarrow>
           if run_status \<noteq> js ''completed''
           then ([ThreadsCreate seed, RunsCreateAndPoll thread_id assistant_id],
                 error_response 500 (js ''Run did not complete: '' @ run_status))
           else
             (case messages_list w thread_id of
                Inl e \<Rightarrow>
                  ([ThreadsCreate seed, RunsCreateAndPoll thread_id assistant_id,
                    MessagesList thread_id], error_response 500 e)
              | Inr data \<Rightarrow>
                (case parse_assistant (JSON_parse w) data of
                   Inl r \<Rightarrow>
                     ([ThreadsCreate seed, RunsCreateAndPoll thread_id assistant_id,
                       MessagesList thread_id], r)
                 | Inr (notes_markdown, voiceover_script) \<Rightarrow>
                     (case compose w mode notes_markdown voiceover_script of
                        (steps, r) \<Rightarrow>
                          ([ThreadsCreate seed, RunsCreateAndPoll thread_id assistant_id,
                            MessagesList thread_id] @ steps, r))))))"

subsection \<open>The handler\<close>

text \<open>
  Lines 6 to 8 run when the module is loaded, before any request is handled:
  \<open>new OpenAI({apiKey: process.env.OPENAI_API_KEY})\<close>. The constructor of the
  \<open>openai\<close> package throws when \<open>apiKey\<close> is undefined, that is when the variable
  is absent, and accepts every string, the empty one too. \<open>missing_key_error\<close> is
  how the message of that error begins.
\<close>

definition missing_key_error :: jsstring where
  "missing_key_error = js ''The OPENAI_API_KEY environment variable is missing or empty''"

definition new_OpenAI :: "jsstring option \<Rightarrow> jsstring + unit" where
  "new_OpenAI apiKey = (case apiKey of None \<Rightarrow> Inl missing_key_error | Some k \<Rightarrow> Inr ())"

text \<open>
  An environment variable that is undefined or the empty string is falsy. The result
  is the list of calls made and either the response of the handler (\<open>Inr\<close>) or the
  message of an error that escapes (\<open>Inl\<close>): the error of the constructor, with
  which the import of the module fails and the handler never runs, or a TypeError
  thrown outside the \<open>try\<close> block.
\<close>

definition unset :: "jsstring option \<Rightarrow> bool" where
  "unset v = (case v of None \<Rightarrow> True | Some s \<Rightarrow> s = [])"

definition POST :: "world \<Rightarrow> step list \<times> (jsstring + response)" where
  "POST w =
     (case new_OpenAI (OPENAI_API_KEY w) of
        Inl import_error \<Rightarrow> ([], Inl import_error)
      | Inr client \<Rightarrow>
        if unset (OPENAI_API_KEY w)
        then ([], Inr (error_response 500 (js ''OPENAI_API_KEY is not set'')))
        else
          (case OPENAI_ASSISTANT_ID w of
             None \<Rightarrow> ([], Inr (error_response 500 (js ''OPENAI_ASSISTANT_ID is not set'')))
           | Some assistant_id \<Rightarrow>
             if assistant_id = []
             then ([], Inr (error_response 500 (js ''OPENAI_ASSISTANT_ID is not set'')))
             else
               (case request_json w of
                  None \<Rightarrow> ([RequestJson], Inr (error_response 400 (js ''Invalid JSON'')))
                | Some b \<Rightarrow>
                  (case read_transcript b of
                     Inl type_error \<Rightarrow> ([RequestJson], Inl type_error)
                   | Inr transcript \<Rightarrow>
                     if transcript = []
                     then ([RequestJson], Inr (error_response 400 (js ''Transcript is empty'')))
                     else
                       (case recap w assistant_id transcript (read_mode b) (read_language b) of
                          (steps, r) \<Rightarrow> (RequestJson # steps, Inr r))))))"

section \<open>The page: generation, history, bundle\<close>

subsection \<open>State of the page\<close>

text \<open>
  The client is typed by its interfaces: \<open>Mode\<close>, \<open>Language\<close>, \<open>RecapResponse\<close>
  and \<open>HistoryItem\<close> (whose field \<open>id\<close> is \<open>item_id\<close> here). An optional or
  \<open>null\<close> field is \<open>None\<close>.
\<close>

datatype Mode = Notes | NotesAudio

datatype Language = En | Sv

record RecapResponse =
  notes_markdown :: jsstring
  audioBase64 :: "jsstring option"
  mimeType :: "jsstring option"

record HistoryItem =
  item_id :: jsstring
  createdAt :: jsstring
  mode :: Mode
  language :: Language
  notesSnippet :: jsstring

record Blob =
  blob_bytes :: "byte list"
  blob_type :: jsstring

text \<open>
  \<open>localStorage\<close> maps a key to a string; the string written under the history key
  is \<open>JSON.stringify\<close> of the list, kept here as the list it encodes.
\<close>

datatype stored = HistoryJSON "HistoryItem list" | Text jsstring

text \<open>
  The \<open>useState\<close> cells of \<open>Page\<close> that the handlers below read or write (the
  selected \<open>mode\<close> and \<open>language\<close> are \<open>sel_mode\<close> and \<open>sel_language\<close>), and the
  browser's \<open>localStorage\<close>.
\<close>

record page =
  sel_mode :: Mode
  sel_language :: Language
  transcript :: jsstring
  loading :: bool
  "notes" :: jsstring
  audioUrl :: "jsstring option"
  audioBlob :: "Blob option"
  error :: "jsstring option"
  history :: "HistoryItem list"
  localStorage :: "jsstring \<rightharpoonup> stored"

text \<open>
  What one run of \<open>handleGenerate\<close> gets from the browser. \<open>fetch_recap\<close> is lines 85
  to 96, the request with body \<open>{transcript, mode, language}\<close>: \<open>Inr\<close> the decoded
  response, \<open>Inl m\<close> when \<open>fetch\<close> rejects, the status is not ok or the body does not
  decode, \<open>m\<close> being the text \<open>err.message || String(err)\<close> of the \<open>catch\<close> block.
  \<open>Date_now\<close> is \<open>String(Date.now())\<close>, \<open>toISOString\<close> is
  \<open>new Date().toISOString()\<close>, and \<open>atob\<close> is \<open>Inl\<close> when it throws.
\<close>

record browser =
  fetch_recap :: "jsstring \<Rightarrow> Mode \<Rightarrow> Language \<Rightarrow> jsstring + RecapResponse"
  Date_now :: jsstring
  toISOString :: jsstring
  atob :: "jsstring \<Rightarrow> jsstring + byte list"
  createObjectURL :: "Blob \<Rightarrow> jsstring"

definition HISTORY_KEY :: jsstring where
  "HISTORY_KEY = js ''meetingRecapHistory''"

subsection \<open>\<open>persistHistory\<close>, \<open>base64ToBlob\<close>, \<open>handleGenerate\<close>\<close>

definition persistHistory :: "HistoryItem list \<Rightarrow> page \<Rightarrow> page" where
  "persistHistory next s =
     s\<lparr>history := next, localStorage := (localStorage s)(HISTORY_KEY \<mapsto> HistoryJSON next)\<rparr>"

text \<open>
  \<open>new Blob(parts, {type})\<close> keeps as its type the empty string when \<open>type\<close> has
  a code unit outside U+0020 to U+007E, and \<open>type\<close> in ASCII lower case otherwise.
\<close>

definition ascii_lower :: "code_unit \<Rightarrow> code_unit" where
  "ascii_lower c = (if 0x41 \<le> c \<and> c \<le> 0x5A then c + 0x20 else c)"

definition new_Blob :: "byte list \<Rightarrow> jsstring \<Rightarrow> Blob" where
  "new_Blob byteArray t =
     \<lparr>blob_bytes = byteArray,
      blob_type = (if list_all (\<lambda>c. 0x20 \<le> c \<and> c \<le> 0x7E) t then map ascii_lower t else [])\<rparr>"

definition base64ToBlob :: "browser \<Rightarrow> jsstring \<Rightarrow> jsstring \<Rightarrow> jsstring + Blob" where
  "base64ToBlob br base64 mime =
     (case atob br base64 of
        Inl e \<Rightarrow> Inl e
      | Inr byteArray \<Rightarrow> Inr (new_Blob byteArray mime))"

text \<open>Lines 99 to 105: the entry of a generation that returned \<open>data\<close>.\<close>

definition historyItem :: "browser \<Rightarrow> page \<Rightarrow> RecapResponse \<Rightarrow> HistoryItem" where
  "historyItem br s data =
     \<lparr>item_id = Date_now br, createdAt = toISOString br, mode = sel_mode s,
      language = sel_language s, notesSnippet = take 120 (notes_markdown data)\<rparr>"

text \<open>Lines 109 to 114, then the \<open>finally\<close> block.\<close>

definition attachAudio :: "browser \<Rightarrow> RecapResponse \<Rightarrow> page \<Rightarrow> page" where
  "attachAudio br data s =
     (case (audioBase64 data, mimeType data) of
        (Some a, Some m) \<Rightarrow>
          if a \<noteq> [] \<and> m \<noteq> []
          then
            (case base64ToBlob br a m of
               Inl e \<Rightarrow> s\<lparr>error := Some e, loading := False\<rparr>
             | Inr blob \<Rightarrow>
                 s\<lparr>audioBlob := Some blob, audioUrl := Some (createObjectURL br blob),
                   loading := False\<rparr>)
          else s\<lparr>loading := False\<rparr>
      | _ \<Rightarrow> s\<lparr>loading := False\<rparr>)"

definition handleGenerate :: "browser \<Rightarrow> page \<Rightarrow> page" where
  "handleGenerate br s =
     (let s1 = s\<lparr>error := None, notes := [], audioUrl := None, audioBlob := None\<rparr> in
      if trim (transcript s) = []
      then s1\<lparr>error := Some (js ''Please paste a transcript or upload a text file first.'')\<rparr>
      else
        (case fetch_recap br (transcript s) (sel_mode s) (sel_language s) of
           Inl m \<Rightarrow> s1\<lparr>error := Some m, loading := False\<rparr>
         | Inr data \<Rightarrow>
             let s2 = s1\<lparr>notes := notes_markdown data\<rparr>;
                 item = historyItem br s data;
                 nextHistory = take 20 (item # history s)
             in attachAudio br data (persistHistory nextHistory s2)))"

text \<open>
  The user presses Generate once for each element of the list, each press with its
  own answers from the browser. \<open>new_item\<close> is the entry a press records, if it
  records one.
\<close>

fun generations :: "browser list \<Rightarrow> page \<Rightarrow> page" where
  "generations [] s = s"
| "generations (br # brs) s = generations brs (handleGenerate br s)"

definition new_item :: "page \<Rightarrow> browser \<Rightarrow> HistoryItem option" where
  "new_item s br =
     (if trim (transcript s) = [] then None
      else
        (case fetch_recap br (transcript s) (sel_mode s) (sel_language s) of
           Inl m \<Rightarrow> None
         | Inr data \<Rightarrow> Some (historyItem br s data)))"

subsection \<open>\<open>handleDownloadZip\<close> and \<open>restoreFromHistory\<close>\<close>

text \<open>
  A \<open>JSZip\<close> archive maps a file name to what \<open>zip.file(name, data)\<close> stored under
  it. The handler returns the new state and, when it offers a download, the
  download's file name and archive.
\<close>

datatype zip_entry = TextEntry jsstring | BlobEntry Blob

type_synonym archive = "jsstring \<rightharpoonup> zip_entry"

definition handleDownloadZip :: "page \<Rightarrow> page \<times> (jsstring \<times> archive) option" where
  "handleDownloadZip s =
     (if notes s = []
      then (s\<lparr>error := Some (js ''There are no notes to download yet.'')\<rparr>, None)
      else
        (let zip = Map.empty(js ''meeting_notes.md'' \<mapsto> TextEntry (notes s));
             zip2 = (case audioBlob s of
                       None \<Rightarrow> zip
                     | Some b \<Rightarrow> zip(js ''meeting_recap.mp3'' \<mapsto> BlobEntry b))
         in (s, Some (js ''meeting_recap_bundle.zip'', zip2))))"

definition restoreFromHistory :: "HistoryItem \<Rightarrow> page \<Rightarrow> page" where
  "restoreFromHistory item s =
     s\<lparr>notes := notesSnippet item @ (if length (notesSnippet item) = 120 then js '' ...'' else [])\<rparr>"

section \<open>The response parser in the specification's words\<close>

text \<open>
  What the specification requires of the answer: the first message of the assistant
  has exactly one content part, that part is text, and the text decodes to a JSON
  object with the key \<open>notes_markdown\<close>.
\<close>

definition spec_parse_ok :: "(jsstring \<Rightarrow> json option) \<Rightarrow> message list \<Rightarrow> bool" where
  "spec_parse_ok parse_fn data =
     (case find (\<lambda>m. role m = js ''assistant'') data of
        None \<Rightarrow> False
      | Some m \<Rightarrow>
        (case content m of
           [TextPart raw] \<Rightarrow>
             (case parse_fn raw of
                Some (JObj kvs) \<Rightarrow> map_of kvs (js ''notes_markdown'') \<noteq> None
              | _ \<Rightarrow> False)
         | _ \<Rightarrow> False))"

section \<open>History invariants\<close>

definition history_ok :: "HistoryItem list \<Rightarrow> bool" where
  "history_ok hs \<longleftrightarrow> length hs \<le> 20 \<and> list_all (\<lambda>h. length (notesSnippet h) \<le> 120) hs"

text \<open>The list kept in \<open>localStorage\<close> under the history key (empty when there is none).\<close>

definition stored_history :: "page \<Rightarrow> HistoryItem list" where
  "stored_history s =
     (case localStorage s HISTORY_KEY of Some (HistoryJSON hs) \<Rightarrow> hs | _ \<Rightarrow> [])"

section \<open>Sample requests and answers\<close>

text \<open>
  Concrete inputs on which the theorems below are run. \<open>sample_parse\<close> agrees with
  \<open>JSON.parse\<close> on the texts used here (it throws on a text that is not JSON),
  \<open>sample_base64\<close> is the base64 encoding of the bytes 1, 2, 3.
\<close>

definition sample_answer :: jsstring where
  \<open>sample_answer = js ''{"notes_markdown":"Ship Friday","voiceover_script":"We ship on Friday."}''\<close>

definition sample_parse :: "jsstring \<Rightarrow> json option" where
  "sample_parse raw =
     (if raw = sample_answer
      then Some (JObj [(js ''notes_markdown'', JStr (js ''Ship Friday'')),
                       (js ''voiceover_script'', JStr (js ''We ship on Friday.''))])
      else if raw = js ''{}'' then Some (JObj [])
      else if raw = js ''[]'' then Some (JArr [])
      else if raw = js ''null'' then Some JNull
      else None)"

definition sample_base64 :: "byte list \<Rightarrow> jsstring" where
  "sample_base64 bs = (if bs = [1, 2, 3] then js ''AQID'' else [])"

definition sample_request :: "jsstring \<Rightarrow> jsstring \<Rightarrow> jsstring \<Rightarrow> json" where
  "sample_request t m l =
     JObj [(js ''transcript'', JStr t), (js ''mode'', JStr m), (js ''language'', JStr l)]"

definition assistant_says :: "content_part list \<Rightarrow> message list" where
  "assistant_says parts = [\<lparr>role = js ''assistant'', content = parts\<rparr>]"

definition sample_world :: "json option \<Rightarrow> jsstring \<Rightarrow> message list \<Rightarrow> world" where
  "sample_world req run_status data =
     \<lparr>OPENAI_API_KEY = Some (js ''sk-test''),
      OPENAI_ASSISTANT_ID = Some (js ''asst_1''),
      request_json = req,
      threads_create = (\<lambda>seed. Inr (js ''thread_1'')),
      runs_createAndPoll = (\<lambda>thread_id assistant_id. Inr run_status),
      messages_list = (\<lambda>thread_id. Inr data),
      JSON_parse = sample_parse,
      speech_create = (\<lambda>input. Inr [1, 2, 3]),
      toBase64 = sample_base64\<rparr>"

definition sample_browser :: "jsstring + RecapResponse \<Rightarrow> browser" where
  "sample_browser answer =
     \<lparr>fetch_recap = (\<lambda>t m l. answer),
      Date_now = js ''1700000000000'',
      toISOString = js ''2023-11-14T22:13:20.000Z'',
      atob = (\<lambda>b. if b = js ''AQID'' then Inr [1, 2, 3] else Inl (js ''InvalidCharacterError'')),
      createObjectURL = (\<lambda>b. js ''blob:1'')\<rparr>"

definition sample_page :: "jsstring \<Rightarrow> page" where
  "sample_page t =
     \<lparr>sel_mode = Notes, sel_language = En, transcript = t, loading = False, notes = [],
      audioUrl = None, audioBlob = None, error = None, history = [], localStorage = Map.empty\<rparr>"

definition sample_transcript :: jsstring where
  "sample_transcript = js ''Alice: we ship Friday.''"

text \<open>
  A configured deployment that receives \<open>{transcript, mode, language}\<close>, whose run
  ends in \<open>run_status\<close> and whose assistant answers with \<open>parts\<close>.
\<close>

definition request_world :: "jsstring \<Rightarrow> jsstring \<Rightarrow> jsstring \<Rightarrow> jsstring \<Rightarrow> content_part list \<Rightarrow> world" where
  "request_world t m l run_status parts =
     sample_world (Some (sample_request t m l)) run_status (assistant_says parts)"

text \<open>
  Notes of 130 letters, a generation numbered \<open>k\<close> (its \<open>id\<close> is \<open>k\<close> digits) that
  returns them, and the entry it records: the first 120 letters.
\<close>

definition long_notes :: jsstring where
  "long_notes = replicate 130 97"

definition numbered_browser :: "nat \<Rightarrow> browser" where
  "numbered_browser k =
     (sample_browser
        (Inr \<lparr>notes_markdown = long_notes, audioBase64 = None, mimeType = None\<rparr>))
     \<lparr>Date_now := replicate k 49\<rparr>"

definition numbered_item :: "nat \<Rightarrow> HistoryItem" where
  "numbered_item k =
     \<lparr>item_id = replicate k 49, createdAt = js ''2023-11-14T22:13:20.000Z'', mode = Notes,
      language = En, notesSnippet = replicate 120 97\<rparr>"

definition short_item :: HistoryItem where
  "short_item = (numbered_item 1)\<lparr>notesSnippet := js ''Ship Friday''\<rparr>"

definition sample_blob :: Blob where
  "sample_blob = \<lparr>blob_bytes = [1, 2, 3], blob_type = js ''audio/mpeg''\<rparr>"

section \<open>Facts about strings\<close>

lemma of_char_lt_256: "(of_char c :: nat) < 256"
proof -
  have "(of_char c :: nat) mod 256 = of_char c" by simp
  then show ?thesis by (metis mod_less_divisor zero_less_numeral)
qed

lemma unat_of_char: "unat (of_char c :: code_unit) = of_char c"
proof -
  have small: "(of_char c :: nat) < 2 ^ 16"
    by (rule less_trans[OF of_char_lt_256]) simp
  have "(of_char c :: code_unit) = of_nat (of_char c)"
    by (simp add: of_nat_of_char)
  then have "unat (of_char c :: code_unit) = unat (of_nat (of_char c :: nat) :: code_unit)"
    by simp
  also have "\<dots> = (of_char c :: nat) mod 2 ^ 16"
    by (simp add: unat_of_nat)
  also have "\<dots> = of_char c"
    using small by (rule mod_less)
  finally show ?thesis .
qed

lemma js_eq_iff [simp]: "js a = js b \<longleftrightarrow> a = b"
proof -
  have "inj (of_char :: char \<Rightarrow> code_unit)"
  proof (rule injI)
    fix c d :: char
    assume "(of_char c :: code_unit) = of_char d"
    then have "unat (of_char c :: code_unit) = unat (of_char d :: code_unit)" by simp
    then have "(of_char c :: nat) = of_char d" by (simp only: unat_of_char)
    then show "c = d" by simp
  qed
  then show ?thesis by (simp add: js_def inj_map_eq_map)
qed

lemma js_Nil_iff [simp]: "js a = [] \<longleftrightarrow> a = []" "[] = js a \<longleftrightarrow> a = []"
  by (auto simp: js_def)

lemma length_js [simp]: "length (js a) = length a"
  by (simp add: js_def)

lemma dropWhile_all_iff: "(\<forall>x\<in>set (dropWhile P xs). P x) \<longleftrightarrow> (\<forall>x\<in>set xs. P x)"
proof
  assume all: "\<forall>x\<in>set (dropWhile P xs). P x"
  have "dropWhile P xs = []"
  proof (rule ccontr)
    assume ne: "dropWhile P xs \<noteq> []"
    then have "\<not> P (hd (dropWhile P xs))" by (rule hd_dropWhile)
    moreover have "hd (dropWhile P xs) \<in> set (dropWhile P xs)" using ne by simp
    ultimately show False using all by blast
  qed
  then show "\<forall>x\<in>set xs. P x" by (simp add: dropWhile_eq_Nil_conv)
next
  assume "\<forall>x\<in>set xs. P x"
  then show "\<forall>x\<in>set (dropWhile P xs). P x" by (meson set_dropWhileD)
qed

lemma trim_eq_Nil_iff: "trim s = [] \<longleftrightarrow> (\<forall>c\<in>set s. isWhiteSpace c)"
  by (simp add: trim_def dropWhile_eq_Nil_conv dropWhile_all_iff)

lemma trim_sample: "trim (js '' hi '') = js ''hi''"
  by (simp add: trim_def js_def isWhiteSpace_def)

lemmas handler_defs =
  POST_def new_OpenAI_def recap_def compose_def parse_assistant_def read_transcript_def read_mode_def
  read_language_def seed_messages_def seed_content_def languageInstruction_def
  or_default_def nullish_default_def unset_def error_response_def

lemma trim_sample_transcript: "trim sample_transcript = sample_transcript"
  by (simp add: sample_transcript_def trim_def js_def isWhiteSpace_def)

lemma sample_transcript_not_empty: "sample_transcript \<noteq> []"
  by (simp add: sample_transcript_def)

lemmas sample_defs =
  request_world_def sample_world_def sample_request_def assistant_says_def sample_parse_def
  sample_base64_def sample_answer_def

lemmas eval_simps =
  handler_defs sample_defs trim_sample trim_sample_transcript sample_transcript_not_empty

section \<open>Configuration errors\<close>

text \<open>
  Once the module is loaded, the two guards of the handler answer before anything
  else happens: with the key empty, or with the key set and the assistant
  identifier unset, the response is the configuration error with status 500,
  whatever the body is, and the body is not read.
\<close>

lemma configuration_guards:
  assumes "OPENAI_API_KEY w = Some k" and "k = [] \<or> unset (OPENAI_ASSISTANT_ID w)"
  shows "POST w =
           ([], Inr \<lparr>status = 500,
                    body = ErrorBody (if k = [] then js ''OPENAI_API_KEY is not set''
                                      else js ''OPENAI_ASSISTANT_ID is not set'') None\<rparr>)"
    and "POST (w\<lparr>request_json := rj\<rparr>) = POST w"
  using assms
  by (auto simp: POST_def new_OpenAI_def unset_def error_response_def split: option.splits)

text \<open>
  C10. The claim holds for an unset assistant identifier and for an empty key, and
  fails for an absent key: the constructor of lines 6 to 8 throws when the module
  is loaded, the error escapes, and the guard of line 19 never gets to answer
  \<open>OPENAI_API_KEY is not set\<close>. The body is read in none of the three cases.
\<close>

theorem absent_key_escapes:
  "POST ((request_world [] (js ''notes'') (js ''en'') (js ''completed'') [])
           \<lparr>OPENAI_API_KEY := None\<rparr>) = ([], Inl missing_key_error)
   \<and> POST ((request_world [] (js ''notes'') (js ''en'') (js ''completed'') [])
           \<lparr>OPENAI_API_KEY := None\<rparr>) \<noteq>
       ([], Inr \<lparr>status = 500, body = ErrorBody (js ''OPENAI_API_KEY is not set'') None\<rparr>)
   \<and> POST ((request_world [] (js ''notes'') (js ''en'') (js ''completed'') [])
           \<lparr>OPENAI_API_KEY := Some []\<rparr>) =
       ([], Inr \<lparr>status = 500, body = ErrorBody (js ''OPENAI_API_KEY is not set'') None\<rparr>)
   \<and> POST ((request_world [] (js ''notes'') (js ''en'') (js ''completed'') [])
           \<lparr>OPENAI_ASSISTANT_ID := None\<rparr>) =
       ([], Inr \<lparr>status = 500, body = ErrorBody (js ''OPENAI_ASSISTANT_ID is not set'') None\<rparr>)"
  by (simp add: handler_defs sample_defs)

section \<open>A run that does not complete\<close>

text \<open>
  C6. Whenever the handler has polled a run and the run ended in a status other
  than \<open>completed\<close> (\<open>failed\<close>, \<open>cancelled\<close>, \<open>expired\<close> or any other), the
  response has status 500 and the error text \<open>Run did not complete: \<close> followed by
  that status; the messages are not retrieved, no speech is synthesised and no recap
  payload is composed.
\<close>

theorem run_not_completed:
  assumes "RunsCreateAndPoll thread_id assistant_id \<in> set (fst (POST w))"
    and "runs_createAndPoll w thread_id assistant_id = Inr run_status"
    and "run_status \<noteq> js ''completed''"
  shows "(\<exists>seed. POST w =
           ([RequestJson, ThreadsCreate seed, RunsCreateAndPoll thread_id assistant_id],
            Inr \<lparr>status = 500,
                 body = ErrorBody (js ''Run did not complete: '' @ run_status) None\<rparr>))
         \<and> (\<forall>t. MessagesList t \<notin> set (fst (POST w)))
         \<and> (\<forall>v. SpeechCreate v \<notin> set (fst (POST w)))"
  using assms
  by (auto simp: POST_def new_OpenAI_def recap_def compose_def error_response_def Let_def
      split: if_splits option.splits sum.splits prod.splits)

theorem run_not_completed_witness:
  "RunsCreateAndPoll (js ''thread_1'') (js ''asst_1'')
     \<in> set (fst (POST (request_world sample_transcript (js ''notes+audio'') (js ''en'') (js ''failed'') [])))
   \<and> runs_createAndPoll
         (request_world sample_transcript (js ''notes+audio'') (js ''en'') (js ''failed'') [])
         (js ''thread_1'') (js ''asst_1'') = Inr (js ''failed'')
   \<and> js ''failed'' \<noteq> js ''completed''
   \<and> snd (POST (request_world sample_transcript (js ''notes+audio'') (js ''en'') (js ''failed'') [])) =
         Inr \<lparr>status = 500, body = ErrorBody (js ''Run did not complete: failed'') None\<rparr>
   \<and> (\<forall>v. SpeechCreate v
          \<notin> set (fst (POST (request_world sample_transcript (js ''notes+audio'') (js ''en'') (js ''failed'') []))))"
proof -
  let ?w = "request_world sample_transcript (js ''notes+audio'') (js ''en'') (js ''failed'') []"
  have h1: "RunsCreateAndPoll (js ''thread_1'') (js ''asst_1'') \<in> set (fst (POST ?w))"
    by (simp add: eval_simps)
  have h2: "runs_createAndPoll ?w (js ''thread_1'') (js ''asst_1'') = Inr (js ''failed'')"
    by (simp add: sample_defs)
  have h3: "js ''failed'' \<noteq> js ''completed''"
    by simp
  have e: "js ''Run did not complete: '' @ js ''failed'' = js ''Run did not complete: failed''"
    by (simp add: js_def)
  from run_not_completed [OF h1 h2 h3] h1 h2 h3 e show ?thesis
    by auto
qed

section \<open>An answer that does not decode\<close>

text \<open>
  C7. Whenever the messages were retrieved and \<open>JSON.parse\<close> throws on the text of
  the first part of the first assistant message, the response has status 500 and
  carries, beside the error text, that text itself in the field \<open>raw\<close>.
\<close>

theorem undecodable_answer_carries_raw:
  assumes "MessagesList thread_id \<in> set (fst (POST w))"
    and "messages_list w thread_id = Inr data"
    and "find (\<lambda>m. role m = js ''assistant'') data = Some m"
    and "content m = TextPart raw # rest"
    and "JSON_parse w raw = None"
  shows "snd (POST w) =
           Inr \<lparr>status = 500,
                body = ErrorBody (js ''Failed to parse JSON from assistant'') (Some raw)\<rparr>"
  using assms
  by (auto simp: POST_def new_OpenAI_def recap_def compose_def parse_assistant_def
      error_response_def Let_def
      split: if_splits option.splits sum.splits prod.splits)

theorem undecodable_answer_carries_raw_witness:
  "MessagesList (js ''thread_1'')
     \<in> set (fst (POST (request_world sample_transcript (js ''notes'') (js ''en'') (js ''completed'')
                          [TextPart (js ''Here are your notes'')])))
   \<and> sample_parse (js ''Here are your notes'') = None
   \<and> snd (POST (request_world sample_transcript (js ''notes'') (js ''en'') (js ''completed'')
                   [TextPart (js ''Here are your notes'')])) =
         Inr \<lparr>status = 500,
              body = ErrorBody (js ''Failed to parse JSON from assistant'')
                       (Some (js ''Here are your notes''))\<rparr>"
proof -
  let ?raw = "js ''Here are your notes''"
  let ?w = "request_world sample_transcript (js ''notes'') (js ''en'') (js ''completed'') [TextPart ?raw]"
  let ?m = "\<lparr>role = js ''assistant'', content = [TextPart ?raw]\<rparr>"
  have h1: "MessagesList (js ''thread_1'') \<in> set (fst (POST ?w))"
    by (simp add: eval_simps)
  have h2: "messages_list ?w (js ''thread_1'') = Inr [?m]"
    by (simp add: sample_defs)
  have h3: "find (\<lambda>m. role m = js ''assistant'') [?m] = Some ?m"
    by simp
  have h4: "content ?m = TextPart ?raw # []"
    by simp
  have h5: "JSON_parse ?w ?raw = None"
    by (simp add: sample_defs)
  have p: "sample_parse ?raw = None"
    by (simp add: sample_defs)
  from undecodable_answer_carries_raw [OF h1 h2 h3 h4 h5] h1 p show ?thesis
    by simp
qed

section \<open>An empty transcript\<close>

text \<open>
  C4, as amended. When both configuration variables are set and not empty, every
  request whose body has a transcript that is empty or made of whitespace only is
  answered with status 400 and the error \<open>Transcript is empty\<close>, whatever its mode
  and language, and the handler only reads the body: no session is created.
\<close>

theorem empty_transcript_rejected:
  assumes "\<not> unset (OPENAI_API_KEY w)" and "\<not> unset (OPENAI_ASSISTANT_ID w)"
    and "request_json w = Some b"
    and "member b (js ''transcript'') = Some (JStr t)"
    and "\<forall>c\<in>set t. isWhiteSpace c"
  shows "POST w =
           ([RequestJson],
            Inr \<lparr>status = 400, body = ErrorBody (js ''Transcript is empty'') None\<rparr>)"
proof -
  have "b \<noteq> JNull" using assms(4) by auto
  have "trim t = []" using assms(5) by (simp add: trim_eq_Nil_iff)
  have "read_transcript b = Inr []"
    using assms(4) \<open>b \<noteq> JNull\<close> \<open>trim t = []\<close>
    by (cases b; cases "t = []") (simp_all add: read_transcript_def or_default_def trim_def)
  then show ?thesis
    using assms(1-3)
    by (auto simp: POST_def new_OpenAI_def unset_def error_response_def split: option.splits)
qed

theorem empty_transcript_rejected_witness:
  "\<not> unset (OPENAI_API_KEY (request_world [32, 9, 10] (js ''notes+audio'') (js ''sv'') (js ''completed'') []))
   \<and> \<not> unset (OPENAI_ASSISTANT_ID (request_world [32, 9, 10] (js ''notes+audio'') (js ''sv'') (js ''completed'') []))
   \<and> member (sample_request [32, 9, 10] (js ''notes+audio'') (js ''sv'')) (js ''transcript'')
         = Some (JStr [32, 9, 10])
   \<and> isWhiteSpace 32 \<and> isWhiteSpace 9 \<and> isWhiteSpace 10
   \<and> POST (request_world [32, 9, 10] (js ''notes+audio'') (js ''sv'') (js ''completed'') []) =
         ([RequestJson],
          Inr \<lparr>status = 400, body = ErrorBody (js ''Transcript is empty'') None\<rparr>)"
proof -
  let ?w = "request_world [32, 9, 10] (js ''notes+audio'') (js ''sv'') (js ''completed'') []"
  let ?b = "sample_request [32, 9, 10] (js ''notes+audio'') (js ''sv'')"
  have h1: "\<not> unset (OPENAI_API_KEY ?w)" by (simp add: sample_defs unset_def)
  have h2: "\<not> unset (OPENAI_ASSISTANT_ID ?w)" by (simp add: sample_defs unset_def)
  have h3: "request_json ?w = Some ?b" by (simp add: sample_defs)
  have h4: "member ?b (js ''transcript'') = Some (JStr [32, 9, 10])" by (simp add: sample_defs)
  have h5: "\<forall>c\<in>set [32, 9, 10]. isWhiteSpace c" by (simp add: isWhiteSpace_def)
  have ws: "isWhiteSpace 32" "isWhiteSpace 9" "isWhiteSpace 10" by (simp_all add: isWhiteSpace_def)
  from empty_transcript_rejected [OF h1 h2 h3 h4 h5] h1 h2 h4 ws show ?thesis
    by simp
qed

text \<open>
  With the key set and no assistant identifier, a request with an empty transcript
  is answered with status 500 by the guard of line 25, before the body is read.
\<close>

theorem empty_transcript_unconfigured_counterexample:
  "OPENAI_API_KEY ((request_world [] (js ''notes'') (js ''en'') (js ''completed'') [])
                     \<lparr>OPENAI_ASSISTANT_ID := None\<rparr>) = Some (js ''sk-test'')
   \<and> member (sample_request [] (js ''notes'') (js ''en'')) (js ''transcript'') = Some (JStr [])
   \<and> POST ((request_world [] (js ''notes'') (js ''en'') (js ''completed'') [])
             \<lparr>OPENAI_ASSISTANT_ID := None\<rparr>) =
         ([], Inr \<lparr>status = 500, body = ErrorBody (js ''OPENAI_ASSISTANT_ID is not set'') None\<rparr>)"
  by (simp add: eval_simps)

section \<open>Audio fields of a successful response\<close>

text \<open>Only \<open>compose\<close> answers with status 200.\<close>

lemma compose_ok:
  assumes "compose w md n v = (steps, r)" and "status r = 200"
  shows "(md = JStr (js ''notes'') \<longrightarrow> body r = RecapBody n None None)
       \<and> (md \<noteq> JStr (js ''notes'') \<longrightarrow>
            (\<exists>buffer. speech_create w v = Inr buffer
               \<and> body r = RecapBody n (Some (toBase64 w buffer)) (Some (js ''audio/mpeg''))))"
  using assms
  by (auto simp: compose_def error_response_def split: if_splits sum.splits)

lemma parse_assistant_Inl_status: "parse_assistant p data = Inl r \<Longrightarrow> status r = 500"
  by (auto simp: parse_assistant_def error_response_def
      split: option.splits list.splits content_part.splits json.splits)

lemma POST_ok_compose:
  assumes "POST w = (steps, Inr r)" and "status r = 200"
  shows "\<exists>b n v cs. request_json w = Some b \<and> compose w (read_mode b) n v = (cs, r)"
  using assms
  by (auto simp: POST_def new_OpenAI_def recap_def error_response_def Let_def
      dest: parse_assistant_Inl_status
      split: if_splits option.splits sum.splits prod.splits)

text \<open>
  C1. In every response with status 200: when the mode of the request
  (\<open>body.mode || "notes"\<close>) is \<open>notes\<close>, \<open>audioBase64\<close> and \<open>mimeType\<close> are both
  \<open>null\<close>; when it is \<open>notes+audio\<close>, both are set and \<open>mimeType\<close> is
  \<open>audio/mpeg\<close>; and in all cases one is \<open>null\<close> exactly when the other is.
\<close>

theorem audio_fields_together:
  assumes "POST w = (steps, Inr r)" and "status r = 200"
  shows "\<exists>b n a m. request_json w = Some b \<and> body r = RecapBody n a m
           \<and> (read_mode b = JStr (js ''notes'') \<longrightarrow> a = None \<and> m = None)
           \<and> (read_mode b = JStr (js ''notes+audio'') \<longrightarrow>
                (\<exists>audio. a = Some audio) \<and> m = Some (js ''audio/mpeg''))
           \<and> (a = None \<longleftrightarrow> m = None)"
proof -
  from POST_ok_compose [OF assms] obtain b n v cs
    where b: "request_json w = Some b" and c: "compose w (read_mode b) n v = (cs, r)"
    by blast
  show ?thesis
  proof (cases "read_mode b = JStr (js ''notes'')")
    case True
    with compose_ok [OF c assms(2)] have "body r = RecapBody n None None" by simp
    with b True show ?thesis by simp
  next
    case False
    with compose_ok [OF c assms(2)] obtain buffer
      where "body r = RecapBody n (Some (toBase64 w buffer)) (Some (js ''audio/mpeg''))"
      by blast
    with b False show ?thesis by simp
  qed
qed


theorem audio_fields_together_witness:
  "snd (POST (request_world sample_transcript (js ''notes+audio'') (js ''en'') (js ''completed'')
               [TextPart sample_answer])) =
     Inr \<lparr>status = 200,
          body = RecapBody (JStr (js ''Ship Friday'')) (Some (js ''AQID'')) (Some (js ''audio/mpeg''))\<rparr>
   \<and> read_mode (sample_request sample_transcript (js ''notes+audio'') (js ''en'')) = JStr (js ''notes+audio'')
   \<and> snd (POST (request_world sample_transcript (js ''notes'') (js ''en'') (js ''completed'')
                   [TextPart sample_answer])) =
     Inr \<lparr>status = 200, body = RecapBody (JStr (js ''Ship Friday'')) None None\<rparr>
   \<and> read_mode (sample_request sample_transcript (js ''notes'') (js ''en'')) = JStr (js ''notes'')
   \<and> (\<exists>b n a m.
          request_json (request_world sample_transcript (js ''notes+audio'') (js ''en'') (js ''completed'')
                          [TextPart sample_answer]) = Some b
          \<and> body \<lparr>status = 200,
                    body = RecapBody (JStr (js ''Ship Friday'')) (Some (js ''AQID''))
                             (Some (js ''audio/mpeg''))\<rparr> = RecapBody n a m
          \<and> (read_mode b = JStr (js ''notes'') \<longrightarrow> a = None \<and> m = None)
          \<and> (read_mode b = JStr (js ''notes+audio'') \<longrightarrow>
                (\<exists>audio. a = Some audio) \<and> m = Some (js ''audio/mpeg''))
          \<and> (a = None \<longleftrightarrow> m = None))"
proof -
  let ?w = "request_world sample_transcript (js ''notes+audio'') (js ''en'') (js ''completed'')
              [TextPart sample_answer]"
  let ?r = "\<lparr>status = 200,
             body = RecapBody (JStr (js ''Ship Friday'')) (Some (js ''AQID'')) (Some (js ''audio/mpeg''))\<rparr>"
  let ?w' = "request_world sample_transcript (js ''notes'') (js ''en'') (js ''completed'')
               [TextPart sample_answer]"
  have h1: "POST ?w = (fst (POST ?w), Inr ?r)"
    by (simp add: eval_simps)
  have h2: "status ?r = 200"
    by simp
  have s1: "snd (POST ?w) = Inr ?r"
    by (simp add: eval_simps)
  have m1: "read_mode (sample_request sample_transcript (js ''notes+audio'') (js ''en'')) = JStr (js ''notes+audio'')"
    by (simp add: eval_simps)
  have m2: "read_mode (sample_request sample_transcript (js ''notes'') (js ''en'')) = JStr (js ''notes'')"
    by (simp add: eval_simps)
  have n: "snd (POST ?w') = Inr \<lparr>status = 200, body = RecapBody (JStr (js ''Ship Friday'')) None None\<rparr>"
    by (simp add: eval_simps)
  note c = audio_fields_together [OF h1 h2]
  show ?thesis
    by (intro conjI) (rule s1 m1 n m2 c)+
qed

section \<open>The message that seeds the session\<close>

lemma read_transcript_string:
  assumes "member b (js ''transcript'') = Some (JStr t)"
  shows "read_transcript b = Inr (trim t)"
proof -
  have "b \<noteq> JNull" using assms by auto
  then show ?thesis
    using assms
    by (cases b; cases "t = []") (simp_all add: read_transcript_def or_default_def trim_def)
qed

lemma instruction_of_request:
  "languageInstruction (read_language b) =
     (if member b (js ''language'') = Some (JStr (js ''sv''))
      then swedish_instruction else english_instruction)"
  by (auto simp: languageInstruction_def read_language_def or_default_def split: option.splits)

lemma recap_steps:
  "\<exists>rest. fst (recap w a t md l) = ThreadsCreate (seed_messages l t) # rest
          \<and> (\<forall>x. ThreadsCreate x \<notin> set rest)"
  by (auto simp: recap_def compose_def Let_def split: sum.splits prod.splits if_splits)

text \<open>
  C3, as amended. On a configured deployment, for every request whose transcript is
  a string that is not empty after trimming, the first remote call creates the
  session with a single message of role \<open>user\<close>: the language directive, a blank
  line, \<open>Transcript:\<close>, a blank line, and the transcript with the whitespace at
  both ends removed. The directive is the Swedish sentence when the language is
  \<open>sv\<close>, and the English sentence for \<open>en\<close>, for any other value and when the
  field is missing. No second session is created.
\<close>

theorem session_seed:
  assumes "\<not> unset (OPENAI_API_KEY w)" and "\<not> unset (OPENAI_ASSISTANT_ID w)"
    and "request_json w = Some b"
    and "member b (js ''transcript'') = Some (JStr t)"
    and "trim t \<noteq> []"
  shows "\<exists>rest.
           fst (POST w) =
             RequestJson
             # ThreadsCreate
                 [\<lparr>param_role = js ''user'',
                   param_content =
                     (if member b (js ''language'') = Some (JStr (js ''sv''))
                      then js ''Please write the notes and voiceover script in Swedish.''
                      else js ''Please write the notes and voiceover script in English.'')
                     @ [10, 10] @ js ''Transcript:'' @ [10, 10] @ trim t\<rparr>]
             # rest
           \<and> (\<forall>x. ThreadsCreate x \<notin> set rest)"
proof -
  obtain a where a: "OPENAI_ASSISTANT_ID w = Some a" "a \<noteq> []"
    using assms(2) by (auto simp: unset_def split: option.splits)
  obtain rest where rest:
    "fst (recap w a (trim t) (read_mode b) (read_language b)) =
       ThreadsCreate (seed_messages (read_language b) (trim t)) # rest"
    "\<forall>x. ThreadsCreate x \<notin> set rest"
    using recap_steps by blast
  have "fst (POST w) = RequestJson # fst (recap w a (trim t) (read_mode b) (read_language b))"
    using assms(1,3,5) a read_transcript_string [OF assms(4)]
    by (auto simp: POST_def new_OpenAI_def unset_def split: prod.splits option.splits)
  with rest show ?thesis
    by (simp add: seed_messages_def seed_content_def instruction_of_request
        swedish_instruction_def english_instruction_def)
qed

theorem session_seed_witness:
  "\<not> unset (OPENAI_API_KEY (request_world (js '' hi '') (js ''notes'') (js ''sv'') (js ''completed'') []))
   \<and> \<not> unset (OPENAI_ASSISTANT_ID (request_world (js '' hi '') (js ''notes'') (js ''sv'') (js ''completed'') []))
   \<and> member (sample_request (js '' hi '') (js ''notes'') (js ''sv'')) (js ''transcript'') = Some (JStr (js '' hi ''))
   \<and> trim (js '' hi '') \<noteq> []
   \<and> (\<exists>rest.
         fst (POST (request_world (js '' hi '') (js ''notes'') (js ''sv'') (js ''completed'') [])) =
           RequestJson
           # ThreadsCreate
               [\<lparr>param_role = js ''user'',
                 param_content =
                   js ''Please write the notes and voiceover script in Swedish.''
                   @ [10, 10] @ js ''Transcript:'' @ [10, 10] @ js ''hi''\<rparr>]
           # rest
         \<and> (\<forall>x. ThreadsCreate x \<notin> set rest))"
proof -
  let ?w = "request_world (js '' hi '') (js ''notes'') (js ''sv'') (js ''completed'') []"
  let ?b = "sample_request (js '' hi '') (js ''notes'') (js ''sv'')"
  have h1: "\<not> unset (OPENAI_API_KEY ?w)" by (simp add: sample_defs unset_def)
  have h2: "\<not> unset (OPENAI_ASSISTANT_ID ?w)" by (simp add: sample_defs unset_def)
  have h3: "request_json ?w = Some ?b" by (simp add: sample_defs)
  have h4: "member ?b (js ''transcript'') = Some (JStr (js '' hi ''))" by (simp add: sample_defs)
  have h5: "trim (js '' hi '') \<noteq> []" by (simp add: trim_sample)
  have l: "member ?b (js ''language'') = Some (JStr (js ''sv''))" by (simp add: sample_defs)
  from session_seed [OF h1 h2 h3 h4 h5] have
    "\<exists>rest.
         fst (POST ?w) =
           RequestJson
           # ThreadsCreate
               [\<lparr>param_role = js ''user'',
                 param_content =
                   js ''Please write the notes and voiceover script in Swedish.''
                   @ [10, 10] @ js ''Transcript:'' @ [10, 10] @ js ''hi''\<rparr>]
           # rest
         \<and> (\<forall>x. ThreadsCreate x \<notin> set rest)"
    by (simp add: l trim_sample)
  with h1 h2 h4 h5 show ?thesis by (intro conjI)
qed

text \<open>
  The transcript is not passed on verbatim: for the transcript \<open>" hi "\<close> the
  message ends in \<open>hi\<close> and the transcript as sent occurs nowhere in it.
\<close>

theorem verbatim_transcript_counterexample:
  "member (sample_request (js '' hi '') (js ''notes'') (js ''en'')) (js ''transcript'') = Some (JStr (js '' hi ''))
   \<and> take 2 (fst (POST (request_world (js '' hi '') (js ''notes'') (js ''en'') (js ''completed'') []))) =
       [RequestJson,
        ThreadsCreate
          [\<lparr>param_role = js ''user'',
            param_content =
              js ''Please write the notes and voiceover script in English.''
              @ [10, 10] @ js ''Transcript:'' @ [10, 10] @ js ''hi''\<rparr>]]
   \<and> \<not> sublist (js '' hi '')
         (js ''Please write the notes and voiceover script in English.''
          @ [10, 10] @ js ''Transcript:'' @ [10, 10] @ js ''hi'')"
proof (intro conjI)
  show "member (sample_request (js '' hi '') (js ''notes'') (js ''en'')) (js ''transcript'') = Some (JStr (js '' hi ''))"
    by (simp add: sample_defs)
  show "take 2 (fst (POST (request_world (js '' hi '') (js ''notes'') (js ''en'') (js ''completed'') []))) =
       [RequestJson,
        ThreadsCreate
          [\<lparr>param_role = js ''user'',
            param_content =
              js ''Please write the notes and voiceover script in English.''
              @ [10, 10] @ js ''Transcript:'' @ [10, 10] @ js ''hi''\<rparr>]]"
    by (simp add: eval_simps english_instruction_def)
  show "\<not> sublist (js '' hi '')
         (js ''Please write the notes and voiceover script in English.''
          @ [10, 10] @ js ''Transcript:'' @ [10, 10] @ js ''hi'')"
    by (simp add: js_def sublist_Cons_right)
qed

section \<open>When the answer of the assistant is accepted\<close>

lemma parse_assistant_Inr:
  assumes "find (\<lambda>m. role m = js ''assistant'') data = Some m"
    and "content m = TextPart raw # rest" and "p raw = Some v" and "v \<noteq> JNull"
  shows "parse_assistant p data =
           Inr (nullish_default (member v (js ''notes_markdown'')) (JStr []),
                nullish_default (member v (js ''voiceover_script'')) (JStr []))"
  using assms by (cases v) (simp_all add: parse_assistant_def)

lemma parse_assistant_Inr_D:
  assumes "parse_assistant p data = Inr nv"
  shows "\<exists>m raw rest v. find (\<lambda>m. role m = js ''assistant'') data = Some m
           \<and> content m = TextPart raw # rest \<and> p raw = Some v \<and> v \<noteq> JNull"
  using assms
  by (auto simp: parse_assistant_def
      split: option.splits list.splits content_part.splits json.splits)

text \<open>
  C2, as amended. The answer is accepted exactly when there is a first message of
  role \<open>assistant\<close>, its content is not empty, its first part is text (further parts
  are ignored), and the text decodes to a JSON value other than \<open>null\<close>. Then
  \<open>notes_markdown\<close> and \<open>voiceover_script\<close> are read from that value, each
  replaced by the empty string when it is missing or \<open>null\<close>. In every other case
  the request fails with status 500.
\<close>

theorem parse_assistant_succeeds_iff:
  "((\<exists>nv. parse_assistant p data = Inr nv) \<longleftrightarrow>
      (\<exists>m raw rest v. find (\<lambda>m. role m = js ''assistant'') data = Some m
         \<and> content m = TextPart raw # rest \<and> p raw = Some v \<and> v \<noteq> JNull))
   \<and> (\<forall>m raw rest v. find (\<lambda>m. role m = js ''assistant'') data = Some m
         \<and> content m = TextPart raw # rest \<and> p raw = Some v \<and> v \<noteq> JNull \<longrightarrow>
         parse_assistant p data =
           Inr (nullish_default (member v (js ''notes_markdown'')) (JStr []),
                nullish_default (member v (js ''voiceover_script'')) (JStr [])))
   \<and> (\<forall>r. parse_assistant p data = Inl r \<longrightarrow> status r = 500)"
proof (intro conjI)
  show "(\<exists>nv. parse_assistant p data = Inr nv) \<longleftrightarrow>
      (\<exists>m raw rest v. find (\<lambda>m. role m = js ''assistant'') data = Some m
         \<and> content m = TextPart raw # rest \<and> p raw = Some v \<and> v \<noteq> JNull)"
    using parse_assistant_Inr parse_assistant_Inr_D by blast
  show "\<forall>m raw rest v. find (\<lambda>m. role m = js ''assistant'') data = Some m
         \<and> content m = TextPart raw # rest \<and> p raw = Some v \<and> v \<noteq> JNull \<longrightarrow>
         parse_assistant p data =
           Inr (nullish_default (member v (js ''notes_markdown'')) (JStr []),
                nullish_default (member v (js ''voiceover_script'')) (JStr []))"
    using parse_assistant_Inr by blast
  show "\<forall>r. parse_assistant p data = Inl r \<longrightarrow> status r = 500"
    using parse_assistant_Inl_status by blast
qed

theorem parse_assistant_succeeds_iff_witness:
  "find (\<lambda>m. role m = js ''assistant'')
      (\<lparr>role = js ''user'', content = [TextPart sample_transcript]\<rparr>
       # assistant_says [TextPart sample_answer, OtherPart (js ''image_file'')]) =
     Some \<lparr>role = js ''assistant'', content = [TextPart sample_answer, OtherPart (js ''image_file'')]\<rparr>
   \<and> sample_parse sample_answer =
       Some (JObj [(js ''notes_markdown'', JStr (js ''Ship Friday'')),
                   (js ''voiceover_script'', JStr (js ''We ship on Friday.''))])
   \<and> parse_assistant sample_parse
        (\<lparr>role = js ''user'', content = [TextPart sample_transcript]\<rparr>
         # assistant_says [TextPart sample_answer, OtherPart (js ''image_file'')]) =
       Inr (JStr (js ''Ship Friday''), JStr (js ''We ship on Friday.''))"
proof -
  let ?m = "\<lparr>role = js ''assistant'', content = [TextPart sample_answer, OtherPart (js ''image_file'')]\<rparr>"
  let ?data = "\<lparr>role = js ''user'', content = [TextPart sample_transcript]\<rparr>
       # assistant_says [TextPart sample_answer, OtherPart (js ''image_file'')]"
  let ?v = "JObj [(js ''notes_markdown'', JStr (js ''Ship Friday'')),
                   (js ''voiceover_script'', JStr (js ''We ship on Friday.''))]"
  have h1: "find (\<lambda>m. role m = js ''assistant'') ?data = Some ?m"
    by (simp add: assistant_says_def)
  have h2: "content ?m = TextPart sample_answer # [OtherPart (js ''image_file'')]"
    by simp
  have h3: "sample_parse sample_answer = Some ?v"
    by (simp add: sample_parse_def)
  have h4: "?v \<noteq> JNull"
    by simp
  from parse_assistant_succeeds_iff [of sample_parse ?data] h1 h2 h3 h4
  have "parse_assistant sample_parse ?data =
           Inr (nullish_default (member ?v (js ''notes_markdown'')) (JStr []),
                nullish_default (member ?v (js ''voiceover_script'')) (JStr []))"
    by blast
  then have "parse_assistant sample_parse ?data =
       Inr (JStr (js ''Ship Friday''), JStr (js ''We ship on Friday.''))"
    by (simp add: nullish_default_def)
  with h1 h3 show ?thesis by (intro conjI)
qed

text \<open>
  Answers that the specification's parser refuses and the handler accepts: the
  object \<open>{}\<close> without \<open>notes_markdown\<close>, the array \<open>[]\<close>, and a message with
  a second content part. For \<open>{}\<close> the whole request succeeds with empty notes.
\<close>

theorem parse_assistant_counterexample:
  "parse_assistant sample_parse (assistant_says [TextPart (js ''{}'')]) = Inr (JStr [], JStr [])
   \<and> \<not> spec_parse_ok sample_parse (assistant_says [TextPart (js ''{}'')])
   \<and> parse_assistant sample_parse (assistant_says [TextPart (js ''[]'')]) = Inr (JStr [], JStr [])
   \<and> \<not> spec_parse_ok sample_parse (assistant_says [TextPart (js ''[]'')])
   \<and> parse_assistant sample_parse (assistant_says [TextPart sample_answer, OtherPart (js ''image_file'')]) =
       Inr (JStr (js ''Ship Friday''), JStr (js ''We ship on Friday.''))
   \<and> \<not> spec_parse_ok sample_parse (assistant_says [TextPart sample_answer, OtherPart (js ''image_file'')])
   \<and> POST (request_world sample_transcript (js ''notes'') (js ''en'') (js ''completed'')
             [TextPart (js ''{}'')]) =
       ([RequestJson, ThreadsCreate (seed_messages (JStr (js ''en'')) sample_transcript),
         RunsCreateAndPoll (js ''thread_1'') (js ''asst_1''), MessagesList (js ''thread_1'')],
        Inr \<lparr>status = 200, body = RecapBody (JStr []) None None\<rparr>)"
  by (simp add: spec_parse_ok_def parse_assistant_def nullish_default_def sample_defs
      POST_def new_OpenAI_def recap_def compose_def read_transcript_def read_mode_def
      read_language_def or_default_def unset_def trim_sample_transcript sample_transcript_not_empty)

section \<open>The history list\<close>

lemma take_append_take: "take n (xs @ take n ys) = take n (xs @ ys)"
  by simp

lemma handleGenerate_inputs:
  "transcript (handleGenerate br s) = transcript s"
  "sel_mode (handleGenerate br s) = sel_mode s"
  "sel_language (handleGenerate br s) = sel_language s"
  by (auto simp: handleGenerate_def attachAudio_def persistHistory_def Let_def
      split: sum.splits option.splits)

lemma new_item_handleGenerate: "new_item (handleGenerate br s) = new_item s"
  by (rule ext) (simp add: new_item_def handleGenerate_inputs historyItem_def split: sum.splits)

lemma attachAudio_history:
  "history (attachAudio br data s) = history s"
  "localStorage (attachAudio br data s) = localStorage s"
  by (auto simp: attachAudio_def split: sum.splits option.splits)

lemma handleGenerate_history:
  "history (handleGenerate br s) =
     (case new_item s br of None \<Rightarrow> history s | Some it \<Rightarrow> take 20 (it # history s))"
  by (auto simp: handleGenerate_def new_item_def attachAudio_history persistHistory_def Let_def
      split: sum.splits)

lemma handleGenerate_stored:
  "stored_history (handleGenerate br s) =
     (case new_item s br of None \<Rightarrow> stored_history s | Some it \<Rightarrow> take 20 (it # history s))"
  by (auto simp: handleGenerate_def new_item_def attachAudio_history persistHistory_def Let_def
      stored_history_def split: sum.splits)

lemma new_item_snippet: "new_item s br = Some it \<Longrightarrow> length (notesSnippet it) \<le> 120"
  by (auto simp: new_item_def historyItem_def split: if_splits sum.splits)

lemma new_items_snippets:
  "list_all (\<lambda>h. length (notesSnippet h) \<le> 120) (List.map_filter (new_item s) brs)"
  by (induction brs) (auto simp: List.map_filter_simps new_item_snippet split: option.splits)

lemma generations_history:
  "history (generations brs s) =
     (if List.map_filter (new_item s) brs = [] then history s
      else take 20 (rev (List.map_filter (new_item s) brs) @ history s))"
proof (induction brs arbitrary: s)
  case Nil
  then show ?case by (simp add: List.map_filter_simps)
next
  case (Cons br brs)
  show ?case
  proof (cases "new_item s br")
    case None
    then show ?thesis
      by (simp add: Cons.IH new_item_handleGenerate handleGenerate_history List.map_filter_simps)
  next
    case (Some it)
    show ?thesis
    proof (cases "List.map_filter (new_item s) brs = []")
      case True
      then show ?thesis
        by (simp add: Cons.IH new_item_handleGenerate handleGenerate_history Some
            List.map_filter_simps)
    next
      case False
      then have "history (generations (br # brs) s) =
              take 20 (rev (List.map_filter (new_item s) brs) @ take 20 (it # history s))"
        by (simp add: Cons.IH new_item_handleGenerate handleGenerate_history Some)
      also have "\<dots> = take 20 (rev (List.map_filter (new_item s) brs) @ it # history s)"
        by (rule take_append_take)
      finally show ?thesis
        by (simp add: Some List.map_filter_simps)
    qed
  qed
qed

lemma generations_stored:
  "stored_history (generations brs s) =
     (if List.map_filter (new_item s) brs = [] then stored_history s
      else history (generations brs s))"
proof (induction brs arbitrary: s)
  case Nil
  then show ?case by (simp add: List.map_filter_simps)
next
  case (Cons br brs)
  show ?case
  proof (cases "new_item s br")
    case None
    then show ?thesis
      by (simp add: Cons.IH new_item_handleGenerate handleGenerate_history handleGenerate_stored
          List.map_filter_simps)
  next
    case (Some it)
    then show ?thesis
      by (simp add: Cons.IH new_item_handleGenerate handleGenerate_history handleGenerate_stored
          List.map_filter_simps generations_history)
  qed
qed

lemma history_ok_take:
  "history_ok hs \<Longrightarrow> length (notesSnippet it) \<le> 120 \<Longrightarrow> history_ok (it # take 19 hs)"
  by (auto simp: history_ok_def list_all_iff dest: in_set_takeD)


lemma generations_history_ok:
  "history_ok (history s) \<Longrightarrow> history_ok (history (generations brs s))"
proof (induction brs arbitrary: s)
  case Nil
  then show ?case by simp
next
  case (Cons br brs)
  have "history_ok (history (handleGenerate br s))"
    using Cons.prems
    by (auto simp: handleGenerate_history history_ok_take new_item_snippet split: option.splits)
  then show ?case by (simp add: Cons.IH)
qed

text \<open>
  C5. Every press of Generate keeps the invariant of the history (at most 20
  entries, every snippet at most 120 code units), in the state and in
  \<open>localStorage\<close>. A press that records an entry puts it in front of the list, cuts
  the list to its first 20 entries and stores exactly that list; the snippet of the
  new entry has at most 120 code units. After presses of which at least 20 recorded
  an entry, the list and the stored list are the 20 most recent entries, the newest
  first.
\<close>

theorem history_bounded:
  "(history_ok (history s) \<longrightarrow> history_ok (history (handleGenerate br s)))
   \<and> (history_ok (history s) \<and> history_ok (stored_history s) \<longrightarrow>
        history_ok (stored_history (handleGenerate br s)))
   \<and> (\<forall>it. new_item s br = Some it \<longrightarrow>
          history (handleGenerate br s) = take 20 (it # history s)
        \<and> stored_history (handleGenerate br s) = take 20 (it # history s)
        \<and> length (notesSnippet it) \<le> 120
        \<and> length (history (handleGenerate br s)) \<le> 20)
   \<and> (history_ok (history s) \<longrightarrow> history_ok (history (generations brs s)))
   \<and> (20 \<le> length (List.map_filter (new_item s) brs) \<longrightarrow>
          history (generations brs s) =
            rev (drop (length (List.map_filter (new_item s) brs) - 20)
                   (List.map_filter (new_item s) brs))
        \<and> stored_history (generations brs s) = history (generations brs s)
        \<and> length (history (generations brs s)) = 20
        \<and> list_all (\<lambda>h. length (notesSnippet h) \<le> 120) (history (generations brs s)))"
proof (intro conjI allI impI)
  assume "history_ok (history s)"
  then show "history_ok (history (handleGenerate br s))"
    by (auto simp: handleGenerate_history history_ok_take new_item_snippet split: option.splits)
next
  assume "history_ok (history s) \<and> history_ok (stored_history s)"
  then show "history_ok (stored_history (handleGenerate br s))"
    by (auto simp: handleGenerate_stored history_ok_take new_item_snippet split: option.splits)
next
  fix it assume "new_item s br = Some it"
  then show "history (handleGenerate br s) = take 20 (it # history s)"
    and "stored_history (handleGenerate br s) = take 20 (it # history s)"
    and "length (notesSnippet it) \<le> 120"
    and "length (history (handleGenerate br s)) \<le> 20"
    by (simp_all add: handleGenerate_history handleGenerate_stored new_item_snippet)
next
  assume "history_ok (history s)"
  then show "history_ok (history (generations brs s))"
    by (rule generations_history_ok)
next
  let ?items = "List.map_filter (new_item s) brs"
  assume n: "20 \<le> length ?items"
  then have ne: "?items \<noteq> []" by auto
  have h: "history (generations brs s) = take 20 (rev ?items)"
    using n ne by (simp add: generations_history)
  then show recent: "history (generations brs s) = rev (drop (length ?items - 20) ?items)"
    by (simp add: take_rev)
  show "stored_history (generations brs s) = history (generations brs s)"
    using ne by (simp add: generations_stored)
  show "length (history (generations brs s)) = 20"
    using n by (simp add: h)
  have "set (history (generations brs s)) \<subseteq> set ?items"
    by (simp add: recent set_drop_subset)
  then show "list_all (\<lambda>h. length (notesSnippet h) \<le> 120) (history (generations brs s))"
    using new_items_snippets [of s brs] by (auto simp: list_all_iff)
qed

lemma new_item_numbered:
  "new_item (sample_page sample_transcript) (numbered_browser k) = Some (numbered_item k)"
  by (simp add: new_item_def sample_page_def numbered_browser_def sample_browser_def
      numbered_item_def historyItem_def long_notes_def trim_sample_transcript
      sample_transcript_not_empty)

lemma new_items_numbered:
  "List.map_filter (new_item (sample_page sample_transcript)) (map numbered_browser ks) =
     map numbered_item ks"
  by (induction ks) (simp_all add: List.map_filter_simps new_item_numbered)

theorem history_bounded_witness:
  "history_ok (history (sample_page sample_transcript))
   \<and> history_ok (history (handleGenerate (numbered_browser 1) (sample_page sample_transcript)))
   \<and> new_item (sample_page sample_transcript) (numbered_browser 1) = Some (numbered_item 1)
   \<and> history (handleGenerate (numbered_browser 1) (sample_page sample_transcript)) = [numbered_item 1]
   \<and> length (notesSnippet (numbered_item 1)) \<le> 120
   \<and> 20 \<le> length (List.map_filter (new_item (sample_page sample_transcript))
                     (map numbered_browser [1..<22]))
   \<and> history (generations (map numbered_browser [1..<22]) (sample_page sample_transcript)) =
       map numbered_item (rev [2..<22])
   \<and> stored_history (generations (map numbered_browser [1..<22]) (sample_page sample_transcript)) =
       map numbered_item (rev [2..<22])"
proof -
  let ?s = "sample_page sample_transcript"
  let ?brs = "map numbered_browser [1..<22]"
  note t = history_bounded [of ?s "numbered_browser 1" ?brs]
  have ok: "history_ok (history ?s)"
    by (simp add: history_ok_def sample_page_def)
  have n: "20 \<le> length (List.map_filter (new_item ?s) ?brs)"
    by (simp add: new_items_numbered)
  have d: "rev (drop (length (List.map_filter (new_item ?s) ?brs) - 20)
                 (List.map_filter (new_item ?s) ?brs)) = map numbered_item (rev [2..<22])"
  proof -
    have d1: "length (map numbered_item [1..<22]) - 20 = 1" by simp
    have d2: "drop 1 [1..<22] = [2..<22]" by (simp only: drop_upt one_add_one)
    show ?thesis by (simp only: new_items_numbered d1 drop_map d2 rev_map)
  qed
  have e: "take 20 (numbered_item 1 # history ?s) = [numbered_item 1]"
    by (simp add: sample_page_def)
  from t ok have c1: "history_ok (history (handleGenerate (numbered_browser 1) ?s))"
    by blast
  from t new_item_numbered [of 1]
  have "history (handleGenerate (numbered_browser 1) ?s) = take 20 (numbered_item 1 # history ?s)"
    and c3: "length (notesSnippet (numbered_item 1)) \<le> 120"
    by blast+
  then have c2: "history (handleGenerate (numbered_browser 1) ?s) = [numbered_item 1]"
    by (simp only: e)
  from t n
  have "history (generations ?brs ?s) =
          rev (drop (length (List.map_filter (new_item ?s) ?brs) - 20)
                 (List.map_filter (new_item ?s) ?brs))"
    and st: "stored_history (generations ?brs ?s) = history (generations ?brs ?s)"
    by blast+
  then have c4: "history (generations ?brs ?s) = map numbered_item (rev [2..<22])"
    by (simp only: d)
  from st c4 have c5: "stored_history (generations ?brs ?s) = map numbered_item (rev [2..<22])"
    by (simp only:)
  show ?thesis
    by (intro conjI) (rule ok c1 new_item_numbered c2 c3 n c4 c5)+
qed

section \<open>Restoring a snippet\<close>

text \<open>
  C9. \<open>restoreFromHistory\<close> shows the stored snippet followed by the marker
  \<open>" ..."\<close> exactly when the snippet has 120 code units; a snippet of any other
  length, in particular every shorter one, is shown unchanged. Nothing else in the
  state changes.
\<close>

theorem restore_marker:
  "(notes (restoreFromHistory item s) = notesSnippet item @ js '' ...''
      \<longleftrightarrow> length (notesSnippet item) = 120)
   \<and> (length (notesSnippet item) \<noteq> 120 \<longrightarrow>
        notes (restoreFromHistory item s) = notesSnippet item)
   \<and> (length (notesSnippet item) < 120 \<longrightarrow>
        notes (restoreFromHistory item s) = notesSnippet item)
   \<and> restoreFromHistory item s = s\<lparr>notes := notes (restoreFromHistory item s)\<rparr>"
  by (auto simp: restoreFromHistory_def)

theorem restore_marker_witness:
  "length (notesSnippet (numbered_item 1)) = 120
   \<and> notes (restoreFromHistory (numbered_item 1) (sample_page [])) = replicate 120 97 @ js '' ...''
   \<and> length (notesSnippet short_item) < 120
   \<and> notes (restoreFromHistory short_item (sample_page [])) = js ''Ship Friday''"
proof -
  have l1: "length (notesSnippet (numbered_item 1)) = 120"
    by (simp add: numbered_item_def)
  have l2: "length (notesSnippet short_item) < 120"
    by (simp add: short_item_def)
  from restore_marker [of "numbered_item 1" "sample_page []"] l1
  have r1: "notes (restoreFromHistory (numbered_item 1) (sample_page [])) =
              notesSnippet (numbered_item 1) @ js '' ...''"
    by blast
  from restore_marker [of short_item "sample_page []"] l2
  have r2: "notes (restoreFromHistory short_item (sample_page [])) = notesSnippet short_item"
    by blast
  from l1 l2 r1 r2 show ?thesis
    by (simp add: numbered_item_def short_item_def)
qed

section \<open>The bundle\<close>

text \<open>
  C8. With empty notes \<open>handleDownloadZip\<close> only reports
  \<open>There are no notes to download yet.\<close> and offers no download. Otherwise it
  offers \<open>meeting_recap_bundle.zip\<close>, in which \<open>meeting_notes.md\<close> holds the
  notes and \<open>meeting_recap.mp3\<close> holds the audio blob exactly when there is one:
  without audio the archive has the notes file only.
\<close>

theorem bundle_contents:
  "(notes s = [] \<longrightarrow>
      handleDownloadZip s = (s\<lparr>error := Some (js ''There are no notes to download yet.'')\<rparr>, None))
   \<and> (notes s \<noteq> [] \<longrightarrow>
        (\<exists>zip. handleDownloadZip s = (s, Some (js ''meeting_recap_bundle.zip'', zip))
           \<and> zip (js ''meeting_notes.md'') = Some (TextEntry (notes s))
           \<and> zip (js ''meeting_recap.mp3'') = map_option BlobEntry (audioBlob s)
           \<and> (audioBlob s = None \<longrightarrow> dom zip = {js ''meeting_notes.md''})
           \<and> (audioBlob s \<noteq> None \<longrightarrow> dom zip = {js ''meeting_notes.md'', js ''meeting_recap.mp3''})))"
  by (auto simp: handleDownloadZip_def Let_def split: option.splits if_splits)


theorem bundle_contents_witness:
  "notes (sample_page []) = []
   \<and> handleDownloadZip (sample_page []) =
       ((sample_page [])\<lparr>error := Some (js ''There are no notes to download yet.'')\<rparr>, None)
   \<and> notes ((sample_page [])\<lparr>notes := js ''Ship Friday''\<rparr>) \<noteq> []
   \<and> audioBlob ((sample_page [])\<lparr>notes := js ''Ship Friday''\<rparr>) = None
   \<and> (\<exists>zip. handleDownloadZip ((sample_page [])\<lparr>notes := js ''Ship Friday''\<rparr>) =
                ((sample_page [])\<lparr>notes := js ''Ship Friday''\<rparr>,
                 Some (js ''meeting_recap_bundle.zip'', zip))
          \<and> zip (js ''meeting_notes.md'') = Some (TextEntry (js ''Ship Friday''))
          \<and> dom zip = {js ''meeting_notes.md''})
   \<and> audioBlob ((sample_page [])\<lparr>notes := js ''Ship Friday'', audioBlob := Some sample_blob\<rparr>) \<noteq> None
   \<and> (\<exists>zip. handleDownloadZip
                ((sample_page [])\<lparr>notes := js ''Ship Friday'', audioBlob := Some sample_blob\<rparr>) =
                ((sample_page [])\<lparr>notes := js ''Ship Friday'', audioBlob := Some sample_blob\<rparr>,
                 Some (js ''meeting_recap_bundle.zip'', zip))
          \<and> zip (js ''meeting_recap.mp3'') = Some (BlobEntry sample_blob)
          \<and> dom zip = {js ''meeting_notes.md'', js ''meeting_recap.mp3''})"
proof -
  let ?s0 = "sample_page []"
  let ?s1 = "(sample_page [])\<lparr>notes := js ''Ship Friday''\<rparr>"
  let ?s2 = "(sample_page [])\<lparr>notes := js ''Ship Friday'', audioBlob := Some sample_blob\<rparr>"
  have n0: "notes ?s0 = []" by (simp add: sample_page_def)
  have n1: "notes ?s1 \<noteq> []" by simp
  have a1: "audioBlob ?s1 = None" by (simp add: sample_page_def)
  have n2: "notes ?s2 \<noteq> []" by simp
  have a2: "audioBlob ?s2 \<noteq> None" by simp
  from bundle_contents [of ?s0] n0
  have c0: "handleDownloadZip ?s0 =
              (?s0\<lparr>error := Some (js ''There are no notes to download yet.'')\<rparr>, None)"
    by blast
  from bundle_contents [of ?s1] n1 a1
  have c1: "\<exists>zip. handleDownloadZip ?s1 = (?s1, Some (js ''meeting_recap_bundle.zip'', zip))
          \<and> zip (js ''meeting_notes.md'') = Some (TextEntry (js ''Ship Friday''))
          \<and> dom zip = {js ''meeting_notes.md''}"
    by auto
  from bundle_contents [of ?s2] n2 a2
  have c2: "\<exists>zip. handleDownloadZip ?s2 = (?s2, Some (js ''meeting_recap_bundle.zip'', zip))
          \<and> zip (js ''meeting_recap.mp3'') = Some (BlobEntry sample_blob)
          \<and> dom zip = {js ''meeting_notes.md'', js ''meeting_recap.mp3''}"
    by auto
  show ?thesis
    by (intro conjI) (rule n0 c0 n1 a1 c1 a2 c2)+
qed

end
